theory Spec2Isabelle
  imports Complex_Main "HOL-Library.Product_Lexorder"
begin

section \<open>Scope\<close>

text \<open>
  A model of the two plotting modules of the pipeline: \<^verbatim>\<open>gistPlot_gandalf.py\<close> (maps of
  the emission-line analysis, functions \<^verbatim>\<open>plot_maps\<close> and \<^verbatim>\<open>plot_line\<close>) and \<^verbatim>\<open>gistPlot_kin.py\<close>
  (maps of the stellar kinematics, function \<^verbatim>\<open>plotMaps\<close>). It covers the conversion of
  per-bin results to one row per spaxel, the quality filter and the recentring of the
  velocities, the choice of the colour range, the rasterized image, and the loop in
  which the operator previews, rejects or accepts a figure. The source is read as
  Python 3 with a numpy that still has \<^verbatim>\<open>np.int\<close>. Numpy arrays are lists, a
  two-dimensional array the list of its rows, all of the same length. Indices that
  the callers never make negative (\<^verbatim>\<open>iterate\<close>, \<^verbatim>\<open>line_idx\<close>) are natural numbers, bin ids
  are unbounded integers, and a string is a list of characters with code points below
  256.
\<close>

section \<open>Values and errors\<close>

text \<open>
  The arrays of both plotting modules hold IEEE doubles. A double is modelled as a finite
  real, one of the two infinities, or NaN (numpy's missing marker \<^verbatim>\<open>np.nan\<close>).
  Finite arithmetic is exact: the rounding error of the machine operations is outside
  the model.
\<close>

datatype fl = Fin real | PInf | NInf | NaN

text \<open>The exceptions the modelled code can raise; none of them is caught in the source.\<close>

datatype error =
    NameError string
  | UnboundLocalError string
  | FileNotFoundError string
  | ValueError
  | IndexError
  | EOFError
  | OverflowError
  | AttributeError

definition isnan :: "fl \<Rightarrow> bool" where
  "isnan v = (v = NaN)"

section \<open>Conversion of per-bin results to the long version\<close>

text \<open>
  \<^verbatim>\<open>np.unique\<close>: the sorted distinct elements.
\<close>

definition np_unique :: "int list \<Rightarrow> int list" where
  "np_unique xs = sort (remdups xs)"

text \<open>
  \<^verbatim>\<open>np.where( u == a )[0]\<close> on a one-dimensional array: the positions holding u,
  in increasing order.
\<close>

definition where_eq :: "int \<Rightarrow> int list \<Rightarrow> nat list" where
  "where_eq u a = filter (\<lambda>j. u = a ! j) [0..<length a]"

text \<open>
  \<^verbatim>\<open>a[idx,:] = row\<close>: every row listed in idx is overwritten.
\<close>

definition set_rows :: "nat list \<Rightarrow> 'a \<Rightarrow> 'a list \<Rightarrow> 'a list" where
  "set_rows idx row a = fold (\<lambda>j acc. acc[j := row]) idx a"

text \<open>
  The loop \<^verbatim>\<open>for i in range( len(ubins) )\<close> of \<^verbatim>\<open>plot_maps\<close> (and of \<^verbatim>\<open>plotMaps\<close>),
  for one result array: \<^verbatim>\<open>idx = np.where( ubins[i] == np.abs(binNum_long) )[0]\<close>, then
  \<^verbatim>\<open>long[idx,:] = compressed[i,:]\<close>. Reading row i of an array with fewer rows raises
  IndexError.
\<close>

fun expand_loop :: "int list \<Rightarrow> int list \<Rightarrow> 'a list \<Rightarrow> nat list \<Rightarrow> 'a list \<Rightarrow> error + 'a list" where
  "expand_loop ubins binNum_long compressed [] long = Inr long"
| "expand_loop ubins binNum_long compressed (i # rest) long =
     (if i < length compressed
      then expand_loop ubins binNum_long compressed rest
             (set_rows (where_eq (ubins ! i) (map abs binNum_long)) (compressed ! i) long)
      else Inl IndexError)"

text \<open>
  The long array starts as \<^verbatim>\<open>np.zeros( (len(binNum_long), ncols) )\<close> filled with
  \<^verbatim>\<open>np.nan\<close>; \<open>missing\<close> is that all-NaN row.
\<close>

definition convert_long :: "'a \<Rightarrow> int list \<Rightarrow> int list \<Rightarrow> 'a list \<Rightarrow> error + 'a list" where
  "convert_long missing ubins binNum_long compressed =
     expand_loop ubins binNum_long compressed [0..<length ubins]
       (replicate (length binNum_long) missing)"

section \<open>Arithmetic on doubles\<close>

text \<open>The comparison \<^verbatim>\<open><\<close>: false whenever an operand is NaN.\<close>

fun fl_lt :: "fl \<Rightarrow> fl \<Rightarrow> bool" where
  "fl_lt NaN b = False"
| "fl_lt a NaN = False"
| "fl_lt (Fin x) (Fin y) = (x < y)"
| "fl_lt a NInf = False"
| "fl_lt NInf b = True"
| "fl_lt PInf b = False"
| "fl_lt (Fin x) PInf = True"

fun fl_neg :: "fl \<Rightarrow> fl" where
  "fl_neg (Fin x) = Fin (- x)"
| "fl_neg PInf = NInf"
| "fl_neg NInf = PInf"
| "fl_neg NaN = NaN"

fun fl_add :: "fl \<Rightarrow> fl \<Rightarrow> fl" where
  "fl_add NaN b = NaN"
| "fl_add a NaN = NaN"
| "fl_add (Fin x) (Fin y) = Fin (x + y)"
| "fl_add PInf NInf = NaN"
| "fl_add NInf PInf = NaN"
| "fl_add PInf b = PInf"
| "fl_add NInf b = NInf"
| "fl_add (Fin x) b = b"

definition fl_sub :: "fl \<Rightarrow> fl \<Rightarrow> fl" where
  "fl_sub a b = fl_add a (fl_neg b)"

text \<open>Division by a finite real; a zero divisor gives an infinity, or NaN for 0/0.\<close>

fun fl_divr :: "fl \<Rightarrow> real \<Rightarrow> fl" where
  "fl_divr NaN p = NaN"
| "fl_divr PInf p = (if p < 0 then NInf else PInf)"
| "fl_divr NInf p = (if p < 0 then PInf else NInf)"
| "fl_divr (Fin x) p =
     (if p = 0 then (if x = 0 then NaN else if 0 < x then PInf else NInf)
      else Fin (x / p))"

text \<open>\<^verbatim>\<open>np.log10\<close>.\<close>

fun np_log10 :: "fl \<Rightarrow> fl" where
  "np_log10 (Fin x) = (if 0 < x then Fin (log 10 x) else if x = 0 then NInf else NaN)"
| "np_log10 PInf = PInf"
| "np_log10 NInf = NaN"
| "np_log10 NaN = NaN"

text \<open>
  \<^verbatim>\<open>np.nanmin\<close> and \<^verbatim>\<open>np.nanmax\<close>: ValueError on an empty array, NaN (with a warning
  that the module silences) when every entry is NaN, else the extreme of the other
  entries.
\<close>

definition nanmin :: "fl list \<Rightarrow> error + fl" where
  "nanmin a =
     (if a = [] then Inl ValueError
      else (case filter (\<lambda>v. \<not> isnan v) a of
              [] \<Rightarrow> Inr NaN
            | v # vs \<Rightarrow> Inr (fold (\<lambda>x m. if fl_lt x m then x else m) vs v)))"

definition nanmax :: "fl list \<Rightarrow> error + fl" where
  "nanmax a =
     (if a = [] then Inl ValueError
      else (case filter (\<lambda>v. \<not> isnan v) a of
              [] \<Rightarrow> Inr NaN
            | v # vs \<Rightarrow> Inr (fold (\<lambda>x m. if fl_lt m x then x else m) vs v)))"

text \<open>
  The order in which numpy sorts doubles: minus infinity, the finite values, plus
  infinity, NaN.
\<close>

fun fl_key :: "fl \<Rightarrow> nat \<times> real" where
  "fl_key NInf = (0, 0)"
| "fl_key (Fin x) = (1, x)"
| "fl_key PInf = (2, 0)"
| "fl_key NaN = (3, 0)"

text \<open>
  \<^verbatim>\<open>np.nanmedian\<close> of all entries of an array: NaN when no entry is left after
  dropping the NaNs, else the middle entry of the sorted rest, or the mean of the two
  middle entries.
\<close>

definition nanmedian :: "fl list \<Rightarrow> fl" where
  "nanmedian a =
     (let s = sort_key fl_key (filter (\<lambda>v. \<not> isnan v) a); n = length s
      in if n = 0 then NaN
         else if odd n then s ! (n div 2)
         else fl_divr (fl_add (s ! (n div 2 - 1)) (s ! (n div 2))) 2)"

section \<open>Quality filtering of the emission-line results\<close>

text \<open>
  A two-dimensional array is the list of its rows: one row per sample (or per bin), one
  entry per emission line. The arrays FLUX, AMPL, V, SIGMA and AON come from one table
  extension.
\<close>

type_synonym array2 = "fl list list"

record gandalf_results =
  gandalf_Flux :: array2
  gandalf_Ampl :: array2
  gandalf_Vel :: array2
  gandalf_Sigma :: array2
  gandalf_AoN :: array2

text \<open>\<^verbatim>\<open>a.shape[1]\<close>, read off the first row.\<close>

definition shape1 :: "array2 \<Rightarrow> nat" where
  "shape1 a = (case a of [] \<Rightarrow> 0 | r # rs \<Rightarrow> length r)"

text \<open>
  Lines 228 and 251 to 268 of \<^verbatim>\<open>plot_maps\<close>: at the level BIN each of the five arrays is
  converted to the long version, with the unique ids taken from the bin ids of the same
  table; at any other level the arrays stay as they were read.
\<close>

definition convert_results_long :: "string \<Rightarrow> int list \<Rightarrow> gandalf_results \<Rightarrow> error + gandalf_results" where
  "convert_results_long LEVEL binNum_long g =
     (if LEVEL = ''BIN'' then
        (let ubins = np_unique (map abs binNum_long);
             long = (\<lambda>a. convert_long (replicate (shape1 a) NaN) ubins binNum_long a) in
        (case long (gandalf_Flux g) of Inl e \<Rightarrow> Inl e | Inr flux \<Rightarrow>
        (case long (gandalf_Ampl g) of Inl e \<Rightarrow> Inl e | Inr ampl \<Rightarrow>
        (case long (gandalf_Vel g) of Inl e \<Rightarrow> Inl e | Inr vel \<Rightarrow>
        (case long (gandalf_Sigma g) of Inl e \<Rightarrow> Inl e | Inr sigma \<Rightarrow>
        (case long (gandalf_AoN g) of Inl e \<Rightarrow> Inl e | Inr aon \<Rightarrow>
         Inr \<lparr>gandalf_Flux = flux, gandalf_Ampl = ampl, gandalf_Vel = vel,
              gandalf_Sigma = sigma, gandalf_AoN = aon\<rparr>))))))
      else Inr g)"

text \<open>
  \<^verbatim>\<open>np.where( a[:,i] < T )[0]\<close> for a column i within the array.
\<close>

definition where_lt :: "array2 \<Rightarrow> nat \<Rightarrow> real \<Rightarrow> nat list" where
  "where_lt a i T = filter (\<lambda>r. fl_lt (a ! r ! i) (Fin T)) [0..<length a]"

text \<open>
  \<^verbatim>\<open>a[idx,i] = np.nan\<close>. A row or column outside the array raises IndexError; with an
  empty idx numpy checks nothing.
\<close>

definition set_entries :: "nat list \<Rightarrow> nat \<Rightarrow> array2 \<Rightarrow> error + array2" where
  "set_entries idx i a =
     (if idx = [] then Inr a
      else if i < shape1 a \<and> list_all (\<lambda>r. r < length a) idx
      then Inr (fold (\<lambda>r acc. acc[r := (acc ! r)[i := NaN]]) idx a)
      else Inl IndexError)"

text \<open>
  One round of the loop \<^verbatim>\<open>for i in range(0, gandalf_AoN.shape[1])\<close>: the five
  assignments in the order of the source.
\<close>

definition apply_AoN_column :: "real \<Rightarrow> nat \<Rightarrow> gandalf_results \<Rightarrow> error + gandalf_results" where
  "apply_AoN_column AoNThreshold i g =
     (let idx_AoNThreshold = where_lt (gandalf_AoN g) i AoNThreshold in
     (case set_entries idx_AoNThreshold i (gandalf_Flux g) of Inl e \<Rightarrow> Inl e | Inr flux \<Rightarrow>
     (case set_entries idx_AoNThreshold i (gandalf_Ampl g) of Inl e \<Rightarrow> Inl e | Inr ampl \<Rightarrow>
     (case set_entries idx_AoNThreshold i (gandalf_Vel g) of Inl e \<Rightarrow> Inl e | Inr vel \<Rightarrow>
     (case set_entries idx_AoNThreshold i (gandalf_Sigma g) of Inl e \<Rightarrow> Inl e | Inr sigma \<Rightarrow>
     (case set_entries idx_AoNThreshold i (gandalf_AoN g) of Inl e \<Rightarrow> Inl e | Inr aon \<Rightarrow>
      Inr \<lparr>gandalf_Flux = flux, gandalf_Ampl = ampl, gandalf_Vel = vel,
           gandalf_Sigma = sigma, gandalf_AoN = aon\<rparr>))))))"

fun apply_AoN_threshold :: "real \<Rightarrow> nat list \<Rightarrow> gandalf_results \<Rightarrow> error + gandalf_results" where
  "apply_AoN_threshold AoNThreshold [] g = Inr g"
| "apply_AoN_threshold AoNThreshold (i # rest) g =
     (case apply_AoN_column AoNThreshold i g of
        Inl e \<Rightarrow> Inl e
      | Inr g' \<Rightarrow> apply_AoN_threshold AoNThreshold rest g')"

text \<open>
  \<^verbatim>\<open>np.where(a == -1)[0]\<close> on a two-dimensional array: the row index of every entry
  equal to -1, in row-major order (a row is listed once per such entry). The column
  indices, the second component of what \<^verbatim>\<open>np.where\<close> returns, are dropped by \<^verbatim>\<open>[0]\<close>.
\<close>

definition where_sentinel_rows :: "array2 \<Rightarrow> nat list" where
  "where_sentinel_rows a =
     concat (map (\<lambda>r. map (\<lambda>v. r) (filter (\<lambda>v. v = Fin (- 1)) (a ! r))) [0..<length a])"

text \<open>
  \<^verbatim>\<open>a[ np.where(a == -1)[0] ] = np.nan\<close>: indexing with the row indices alone selects
  whole rows, and every entry of each selected row becomes NaN.
\<close>

definition mask_sentinel :: "array2 \<Rightarrow> array2" where
  "mask_sentinel a =
     fold (\<lambda>r acc. acc[r := replicate (length (acc ! r)) NaN]) (where_sentinel_rows a) a"

text \<open>
  Lines 284 to 295 of \<^verbatim>\<open>plot_maps\<close>: the threshold loop, then the four sentinel
  assignments (the significance array gets none).
\<close>

definition quality_filter :: "real \<Rightarrow> gandalf_results \<Rightarrow> error + gandalf_results" where
  "quality_filter AoNThreshold g =
     (case apply_AoN_threshold AoNThreshold [0..<shape1 (gandalf_AoN g)] g of
        Inl e \<Rightarrow> Inl e
      | Inr g1 \<Rightarrow>
          Inr \<lparr>gandalf_Flux = mask_sentinel (gandalf_Flux g1),
               gandalf_Ampl = mask_sentinel (gandalf_Ampl g1),
               gandalf_Vel = mask_sentinel (gandalf_Vel g1),
               gandalf_Sigma = mask_sentinel (gandalf_Sigma g1),
               gandalf_AoN = gandalf_AoN g1\<rparr>)"



text \<open>
  A column \<^verbatim>\<open>a[:,i]\<close>; IndexError when the array has no column i.
\<close>

definition column :: "nat \<Rightarrow> array2 \<Rightarrow> error + fl list" where
  "column i a = (if list_all (\<lambda>row. i < length row) a then Inr (map (\<lambda>row. row ! i) a)
                 else Inl IndexError)"

text \<open>
  The kinematics module, line 97: \<^verbatim>\<open>result[:,0] = result[:,0] - np.nanmedian( result[:,0] )\<close>,
  on the first column of the long result array; the other columns stay.
\<close>

definition recentre_result :: "array2 \<Rightarrow> error + array2" where
  "recentre_result result =
     (case column 0 result of
        Inl e \<Rightarrow> Inl e
      | Inr v \<Rightarrow> Inr (map (\<lambda>row. row[0 := fl_sub (row ! 0) (nanmedian v)]) result))"

section \<open>Rasterizing a quantity\<close>

text \<open>\<^verbatim>\<open>np.round\<close> rounds to the nearest integer, a tie to the even one.\<close>

definition round_half_even :: "real \<Rightarrow> int" where
  "round_half_even x =
     (let f = \<lfloor>x\<rfloor>; d = x - of_int f
      in if d < 1 / 2 then f else if 1 / 2 < d then f + 1 else if even f then f else f + 1)"

fun np_round :: "fl \<Rightarrow> fl" where
  "np_round (Fin x) = Fin (of_int (round_half_even x))"
| "np_round PInf = PInf"
| "np_round NInf = NInf"
| "np_round NaN = NaN"

text \<open>
  Python's \<^verbatim>\<open>int( )\<close> of a double truncates towards zero; an infinity raises
  OverflowError and NaN raises ValueError.
\<close>

fun py_int :: "fl \<Rightarrow> error + int" where
  "py_int (Fin x) = Inr (if 0 \<le> x then \<lfloor>x\<rfloor> else \<lceil>x\<rceil>)"
| "py_int PInf = Inl OverflowError"
| "py_int NInf = Inl OverflowError"
| "py_int NaN = Inl ValueError"

text \<open>
  The conversion of an array entry to \<^verbatim>\<open>dtype=np.int\<close> truncates a finite value. For
  NaN and the infinities the conversion raises nothing and leaves a meaningless entry
  that no image axis can hold; it is \<open>None\<close> here. The integers are unbounded: an axis
  of 2^63 pixels cannot be allocated.
\<close>

fun astype_int :: "fl \<Rightarrow> int option" where
  "astype_int (Fin x) = Some (if 0 \<le> x then \<lfloor>x\<rfloor> else \<lceil>x\<rceil>)"
| "astype_int v = None"

text \<open>
  \<^verbatim>\<open>int( np.round( (xmax - xmin)/pixelsize ) + 1 )\<close> and one entry of
  \<^verbatim>\<open>np.array( np.round( (X - xmin)/pixelsize ), dtype=np.int )\<close>.
\<close>

definition npixels :: "fl \<Rightarrow> fl \<Rightarrow> real \<Rightarrow> error + int" where
  "npixels lo hi pixelsize = py_int (fl_add (np_round (fl_divr (fl_sub hi lo) pixelsize)) (Fin 1))"

definition pixel_index :: "fl \<Rightarrow> real \<Rightarrow> fl \<Rightarrow> int option" where
  "pixel_index lo pixelsize x = astype_int (np_round (fl_divr (fl_sub x lo) pixelsize))"

text \<open>\<^verbatim>\<open>np.full( (nx, ny), np.nan )\<close>: a negative dimension raises ValueError.\<close>

definition np_full :: "int \<Rightarrow> int \<Rightarrow> error + array2" where
  "np_full nx ny = (if nx < 0 \<or> ny < 0 then Inl ValueError
                    else Inr (replicate (nat nx) (replicate (nat ny) NaN)))"

text \<open>
  Broadcasting of one-dimensional arrays: equal lengths, or one of them of length one.
\<close>

definition broadcast_len :: "nat \<Rightarrow> nat \<Rightarrow> nat option" where
  "broadcast_len a b = (if a = b then Some a else if a = 1 then Some b
                        else if b = 1 then Some a else None)"

definition bcast :: "nat \<Rightarrow> 'a list \<Rightarrow> 'a list" where
  "bcast n xs = (if length xs = n then xs else replicate n (xs ! 0))"

text \<open>
  An index into an axis of n cells: a negative index counts from the end, anything
  else outside the axis is out of bounds.
\<close>

fun norm_index :: "nat \<Rightarrow> int option \<Rightarrow> nat option" where
  "norm_index n None = None"
| "norm_index n (Some i) =
     (if 0 \<le> i \<and> i < int n then Some (nat i)
      else if - int n \<le> i \<and> i < 0 then Some (nat (i + int n))
      else None)"

fun write_cells :: "(nat option \<times> nat option \<times> fl) list \<Rightarrow> array2 \<Rightarrow> array2" where
  "write_cells [] img = img"
| "write_cells ((Some a, Some b, v) # cells) img =
     write_cells cells (img[a := (img ! a)[b := v]])"
| "write_cells (c # cells) img = write_cells cells img"

text \<open>
  \<^verbatim>\<open>image[i,j] = val\<close> with index arrays i and j: the index arrays are broadcast against
  each other (IndexError when they cannot be), then the values against the indices
  (ValueError), then every index is checked against its axis (IndexError), and the
  cells are written in order, a later sample overwriting an earlier one on the same
  pixel.
\<close>

definition index_assign ::
  "int option list \<Rightarrow> int option list \<Rightarrow> fl list \<Rightarrow> array2 \<Rightarrow> nat \<Rightarrow> nat \<Rightarrow> error + array2" where
  "index_assign i j v img nx ny =
     (case broadcast_len (length i) (length j) of
        None \<Rightarrow> Inl IndexError
      | Some n \<Rightarrow>
          if length v \<noteq> n \<and> length v \<noteq> 1 then Inl ValueError
          else
            let a = map (norm_index nx) (bcast n i); b = map (norm_index ny) (bcast n j)
            in if list_all (\<lambda>k. k \<noteq> None) a \<and> list_all (\<lambda>k. k \<noteq> None) b
               then Inr (write_cells (zip a (zip b (bcast n v))) img)
               else Inl IndexError)"

text \<open>
  The block "Create image in pixels" of \<^verbatim>\<open>plot_line\<close> (lines 117 to 124) and of
  \<^verbatim>\<open>plotMaps\<close> (lines 148 to 155), which are the same text.
\<close>

definition rasterize :: "fl list \<Rightarrow> fl list \<Rightarrow> fl list \<Rightarrow> real \<Rightarrow> error + array2" where
  "rasterize X Y v pixelsize =
     (case nanmin X of Inl e \<Rightarrow> Inl e | Inr min_x \<Rightarrow>
     (case nanmax X of Inl e \<Rightarrow> Inl e | Inr max_x \<Rightarrow>
     (case nanmin Y of Inl e \<Rightarrow> Inl e | Inr min_y \<Rightarrow>
     (case nanmax Y of Inl e \<Rightarrow> Inl e | Inr max_y \<Rightarrow>
     (let xmin = fl_sub min_x (Fin 6); xmax = fl_add max_x (Fin 6);
          ymin = fl_sub min_y (Fin 6); ymax = fl_add max_y (Fin 6) in
     (case npixels xmin xmax pixelsize of Inl e \<Rightarrow> Inl e | Inr npixels_x \<Rightarrow>
     (case npixels ymin ymax pixelsize of Inl e \<Rightarrow> Inl e | Inr npixels_y \<Rightarrow>
     (let i = map (pixel_index xmin pixelsize) X;
          j = map (pixel_index ymin pixelsize) Y in
     (case np_full npixels_x npixels_y of Inl e \<Rightarrow> Inl e | Inr img \<Rightarrow>
      index_assign i j v img (nat npixels_x) (nat npixels_y))))))))))"

section \<open>Console input\<close>

text \<open>
  The operator's responses are a list of strings; \<^verbatim>\<open>input( )\<close> takes the next one and
  raises EOFError when none is left.

  \<^verbatim>\<open>float( )\<close> of a string: surrounding white space is dropped; then an optional sign and
  either one of the names inf, infinity, nan in any case, or a decimal number with an
  optional fraction and an optional exponent (a single underscore may separate two
  digits). Anything else raises ValueError, which is \<open>None\<close> here. The value of a decimal
  number is the exact real it denotes.
\<close>

definition is_space :: "char \<Rightarrow> bool" where
  "is_space c = (let n = (of_char c :: nat)
                 in (9 \<le> n \<and> n \<le> 13) \<or> (28 \<le> n \<and> n \<le> 32) \<or> n = 133 \<or> n = 160)"

definition py_strip :: "string \<Rightarrow> string" where
  "py_strip s = rev (dropWhile is_space (rev (dropWhile is_space s)))"

definition digit_val :: "char \<Rightarrow> nat option" where
  "digit_val c = (let n = (of_char c :: nat) in if 48 \<le> n \<and> n \<le> 57 then Some (n - 48) else None)"

definition lower :: "char \<Rightarrow> char" where
  "lower c = (let n = (of_char c :: nat) in if 65 \<le> n \<and> n \<le> 90 then char_of (n + 32) else c)"

text \<open>
  A digit part read from the front of a string: the number read so far, how many digits
  it has, and what is left.
\<close>

fun digits :: "nat \<Rightarrow> nat \<Rightarrow> string \<Rightarrow> nat \<times> nat \<times> string" where
  "digits acc cnt [] = (acc, cnt, [])"
| "digits acc cnt (c # cs) =
     (case digit_val c of
        Some d \<Rightarrow> digits (10 * acc + d) (cnt + 1) cs
      | None \<Rightarrow>
          if c = CHR ''_'' \<and> 0 < cnt
          then (case cs of
                  [] \<Rightarrow> (acc, cnt, c # cs)
                | c' # cs' \<Rightarrow>
                    (case digit_val c' of
                       Some d \<Rightarrow> digits (10 * acc + d) (cnt + 1) cs'
                     | None \<Rightarrow> (acc, cnt, c # cs)))
          else (acc, cnt, c # cs))"

definition split_sign :: "string \<Rightarrow> bool \<times> string" where
  "split_sign s =
     (case s of
        [] \<Rightarrow> (False, [])
      | c # cs \<Rightarrow> if c = CHR ''-'' then (True, cs) else if c = CHR ''+'' then (False, cs)
                  else (False, s))"

text \<open>The exponent part, if any, as a power of ten; \<open>None\<close> when it is malformed.\<close>

definition exponent :: "string \<Rightarrow> real option" where
  "exponent s =
     (case s of
        [] \<Rightarrow> Some 1
      | c # cs \<Rightarrow>
          if c = CHR ''e'' \<or> c = CHR ''E''
          then (case split_sign cs of
                  (neg, t) \<Rightarrow>
                    (case digits 0 0 t of
                       (e, cnt, rest) \<Rightarrow>
                         if cnt = 0 \<or> rest \<noteq> [] then None
                         else Some (if neg then 1 / 10 ^ e else 10 ^ e)))
          else None)"

definition decimal :: "string \<Rightarrow> real option" where
  "decimal s =
     (case digits 0 0 s of
        (ip, ci, r1) \<Rightarrow>
          (case (case r1 of
                   [] \<Rightarrow> (0, 0, [])
                 | c # cs \<Rightarrow> if c = CHR ''.'' then digits 0 0 cs else (0, 0, r1)) of
             (fp, cf, r2) \<Rightarrow>
               if ci + cf = 0 then None
               else (case exponent r2 of
                       None \<Rightarrow> None
                     | Some p \<Rightarrow> Some ((real ip + real fp / 10 ^ cf) * p))))"

definition py_float :: "string \<Rightarrow> fl option" where
  "py_float s =
     (case split_sign (py_strip s) of
        (neg, t) \<Rightarrow>
          if map lower t = ''inf'' \<or> map lower t = ''infinity''
          then Some (if neg then NInf else PInf)
          else if map lower t = ''nan'' then Some NaN
          else (case decimal t of
                  None \<Rightarrow> None
                | Some x \<Rightarrow> Some (Fin (if neg then - x else x))))"

text \<open>\<^verbatim>\<open>inp.split(',')\<close>: the fields between the commas, at least one.\<close>

fun split_comma :: "string \<Rightarrow> string list" where
  "split_comma [] = [[]]"
| "split_comma (c # cs) =
     (if c = CHR '','' then [] # split_comma cs
      else (case split_comma cs of
              [] \<Rightarrow> [[c]]
            | f # fs \<Rightarrow> (c # f) # fs))"

section \<open>Range calibration and the figure\<close>

text \<open>
  What a pass hands to the plotting library: per panel the rasterized image and the
  colour range, and the contour offset that starts the isophote levels
  (\<^verbatim>\<open>np.arange( np.min(np.log10( FLUX )) + contour_offset, ... , 0.2 )\<close>). The library calls
  themselves (figure set-up, \<^verbatim>\<open>imshow\<close>, triangulation and contours, labels, \<^verbatim>\<open>savefig\<close>)
  are taken to succeed.
\<close>

record panel =
  p_image :: array2
  p_vmin :: fl
  p_vmax :: fl

record figure =
  fig_panels :: "panel list"
  fig_contour_offset :: fl

text \<open>
  What the operator sees of a run: a preview (\<^verbatim>\<open>plt.show()\<close>), the hint printed after an
  unrecognized answer, a saved file (\<^verbatim>\<open>plt.savefig\<close>).
\<close>

datatype event = Shown figure | Hint | Saved figure

text \<open>
  The block that chooses vmin and vmax, the same text in \<^verbatim>\<open>plot_line\<close> (lines 90 to 114)
  and in \<^verbatim>\<open>plotMaps\<close> (lines 121 to 145). \<open>vminmax\<close> is the array of the four stored
  pairs, returned as updated. The prompt is built before the operator is asked, from
  \<^verbatim>\<open>labellist[iterate]\<close>, the extremes of the values and the stored pair.
\<close>

definition select_range ::
  "string list \<Rightarrow> bool \<Rightarrow> bool \<Rightarrow> (fl \<times> fl) list \<Rightarrow> nat \<Rightarrow> fl list \<Rightarrow> string list \<Rightarrow>
   error + ((fl \<times> fl) \<times> (fl \<times> fl) list \<times> string list)" where
  "select_range labellist INTERACTIVE SAVE_AFTER_INTERACTIVE vminmax iterate v inputs =
     (if INTERACTIVE then
        (if \<not> iterate < length labellist then Inl IndexError else
        (case nanmin v of Inl e \<Rightarrow> Inl e | Inr good_min \<Rightarrow>
        (case nanmax v of Inl e \<Rightarrow> Inl e | Inr good_max \<Rightarrow>
        (if \<not> iterate < length vminmax then Inl IndexError else
        (case inputs of [] \<Rightarrow> Inl EOFError | inp # rest \<Rightarrow>
        (if inp = [] then Inr (vminmax ! iterate, vminmax, rest) else
        (case split_comma inp of [] \<Rightarrow> Inl IndexError | f0 # fs \<Rightarrow>
        (case py_float f0 of None \<Rightarrow> Inl ValueError | Some vmin \<Rightarrow>
        (case fs of [] \<Rightarrow> Inl IndexError | f1 # fs' \<Rightarrow>
        (case py_float f1 of None \<Rightarrow> Inl ValueError | Some vmax \<Rightarrow>
         Inr ((vmin, vmax), vminmax[iterate := (vmin, vmax)], rest)))))))))))
      else if \<not> SAVE_AFTER_INTERACTIVE then
        (case nanmin v of Inl e \<Rightarrow> Inl e | Inr vmin \<Rightarrow>
        (case nanmax v of Inl e \<Rightarrow> Inl e | Inr vmax \<Rightarrow>
         Inr ((vmin, vmax), vminmax, inputs)))
      else if \<not> iterate < length vminmax then Inl IndexError
      else Inr (vminmax ! iterate, vminmax, inputs))"

text \<open>
  The answer to \<^verbatim>\<open>Save plot [y/n]?\<close>, as both modules test it.
\<close>

definition is_yes :: "string \<Rightarrow> bool" where
  "is_yes inp = (inp = ''y'' \<or> inp = ''Y'' \<or> inp = ''yes'' \<or> inp = ''YES'')"

definition is_no :: "string \<Rightarrow> bool" where
  "is_no inp = (inp = ''n'' \<or> inp = ''N'' \<or> inp = ''no'' \<or> inp = ''NO'')"

definition prepend :: "event list \<Rightarrow> error + (event list \<times> 'a) \<Rightarrow> error + (event list \<times> 'a)" where
  "prepend evs r = (case r of Inl e \<Rightarrow> Inl e | Inr (evs', x) \<Rightarrow> Inr (evs @ evs', x))"

section \<open>The emission-line renderer \<^verbatim>\<open>plot_line\<close>\<close>

text \<open>Lines 74 to 79: the minimum isophote, asked for in interactive mode.\<close>

definition line_contour_offset :: "bool \<Rightarrow> string list \<Rightarrow> error + (fl \<times> string list)" where
  "line_contour_offset INTERACTIVE inputs =
     (if INTERACTIVE then
        case inputs of
          [] \<Rightarrow> Inl EOFError
        | contour_offset # rest \<Rightarrow>
            if contour_offset = [] then Inr (Fin 0.20, rest)
            else (case py_float contour_offset of
                    None \<Rightarrow> Inl ValueError
                  | Some c \<Rightarrow> Inr (c, rest))
      else Inr (Fin 0.20, inputs))"

text \<open>
  Lines 82 to 85: the values of the chosen quantity for the chosen line. With an
  \<open>iterate\<close> outside 0 to 3 nothing is assigned and the next line fails on the unbound
  name.
\<close>

definition get_val :: "gandalf_results \<Rightarrow> nat \<Rightarrow> nat \<Rightarrow> error + fl list" where
  "get_val g line_idx iterate =
     (if iterate = 0 then column line_idx (gandalf_Vel g)
      else if iterate = 1 then column line_idx (gandalf_Sigma g)
      else if iterate = 2 then
        (case column line_idx (gandalf_Flux g) of Inl e \<Rightarrow> Inl e | Inr c \<Rightarrow> Inr (map np_log10 c))
      else if iterate = 3 then column line_idx (gandalf_Ampl g)
      else Inl (UnboundLocalError ''val''))"

text \<open>
  One pass of \<^verbatim>\<open>plot_line\<close> up to the finished figure (lines 66 to 185): the isophote
  prompt, the values, the return on an all-NaN quantity (lines 87 and 88; then there is
  no figure), the range, the image.
\<close>

definition line_pass ::
  "gandalf_results \<Rightarrow> bool \<Rightarrow> bool \<Rightarrow> nat \<Rightarrow> (fl \<times> fl) list \<Rightarrow> fl list \<Rightarrow> fl list \<Rightarrow> real \<Rightarrow> nat \<Rightarrow>
   string list \<Rightarrow> error + (figure option \<times> (fl \<times> fl) list \<times> string list)" where
  "line_pass g INTERACTIVE SAVE_AFTER_INTERACTIVE line_idx vminmax X Y pixelsize iterate inputs =
     (case line_contour_offset INTERACTIVE inputs of Inl e \<Rightarrow> Inl e | Inr (contour_offset, inputs1) \<Rightarrow>
     (case get_val g line_idx iterate of Inl e \<Rightarrow> Inl e | Inr v \<Rightarrow>
     (if length (filter isnan v) = length v then Inr (None, vminmax, inputs1) else
     (case select_range [''V'', ''S'', ''F'', ''A''] INTERACTIVE SAVE_AFTER_INTERACTIVE
              vminmax iterate v inputs1 of Inl e \<Rightarrow> Inl e | Inr ((vmin, vmax), vminmax', inputs2) \<Rightarrow>
     (case rasterize X Y v pixelsize of Inl e \<Rightarrow> Inl e | Inr img \<Rightarrow>
      Inr (Some \<lparr>fig_panels = [\<lparr>p_image = img, p_vmin = vmin, p_vmax = vmax\<rparr>],
                 fig_contour_offset = contour_offset\<rparr>,
           vminmax', inputs2))))))"

section \<open>The kinematics renderer \<^verbatim>\<open>plotMaps\<close>\<close>

text \<open>Lines 110 to 115: the minimum isophote, with the saved one as the default.\<close>

definition kin_contour_offset :: "bool \<Rightarrow> fl \<Rightarrow> string list \<Rightarrow> error + (fl \<times> string list)" where
  "kin_contour_offset INTERACTIVE contour_offset_saved inputs =
     (if INTERACTIVE then
        case inputs of
          [] \<Rightarrow> Inl EOFError
        | contour_offset # rest \<Rightarrow>
            if contour_offset = [] then Inr (contour_offset_saved, rest)
            else (case py_float contour_offset of
                    None \<Rightarrow> Inl ValueError
                  | Some c \<Rightarrow> Inr (c, rest))
      else Inr (contour_offset_saved, inputs))"

text \<open>
  The loop \<^verbatim>\<open>for iterate in range(0,4)\<close> (lines 117 to 174): for each quantity its
  column of the result array, the range, the image.
\<close>

fun kin_panels ::
  "bool \<Rightarrow> bool \<Rightarrow> array2 \<Rightarrow> fl list \<Rightarrow> fl list \<Rightarrow> real \<Rightarrow> nat list \<Rightarrow> (fl \<times> fl) list \<Rightarrow>
   string list \<Rightarrow> error + (panel list \<times> (fl \<times> fl) list \<times> string list)" where
  "kin_panels INTERACTIVE SAVE_AFTER_INTERACTIVE result X Y pixelsize [] vminmax inputs =
     Inr ([], vminmax, inputs)"
| "kin_panels INTERACTIVE SAVE_AFTER_INTERACTIVE result X Y pixelsize (iterate # later) vminmax inputs =
     (case column iterate result of Inl e \<Rightarrow> Inl e | Inr v \<Rightarrow>
     (case select_range [''V'', ''SIGMA'', ''H3'', ''H4''] INTERACTIVE SAVE_AFTER_INTERACTIVE
              vminmax iterate v inputs of Inl e \<Rightarrow> Inl e | Inr ((vmin, vmax), vminmax', inputs') \<Rightarrow>
     (case rasterize X Y v pixelsize of Inl e \<Rightarrow> Inl e | Inr img \<Rightarrow>
     (case kin_panels INTERACTIVE SAVE_AFTER_INTERACTIVE result X Y pixelsize later
              vminmax' inputs' of Inl e \<Rightarrow> Inl e | Inr (ps, vminmax'', inputs'') \<Rightarrow>
      Inr (\<lparr>p_image = img, p_vmin = vmin, p_vmax = vmax\<rparr> # ps, vminmax'', inputs'')))))"

text \<open>
  One pass of \<^verbatim>\<open>plotMaps\<close> from the figure set-up to the finished figure (lines 104 to
  208), on the data read before.
\<close>

record kin_data =
  kd_X :: "fl list"
  kd_Y :: "fl list"
  kd_pixelsize :: real
  kd_result :: array2

definition plotMaps_render ::
  "kin_data \<Rightarrow> bool \<Rightarrow> (fl \<times> fl) list \<Rightarrow> fl \<Rightarrow> bool \<Rightarrow> string list \<Rightarrow>
   error + (figure \<times> (fl \<times> fl) list \<times> string list)" where
  "plotMaps_render d INTERACTIVE vminmax contour_offset_saved SAVE_AFTER_INTERACTIVE inputs =
     (case kin_contour_offset INTERACTIVE contour_offset_saved inputs of Inl e \<Rightarrow> Inl e | Inr (contour_offset, inputs1) \<Rightarrow>
     (case kin_panels INTERACTIVE SAVE_AFTER_INTERACTIVE (kd_result d) (kd_X d) (kd_Y d)
              (kd_pixelsize d) [0, 1, 2, 3] vminmax inputs1 of Inl e \<Rightarrow> Inl e | Inr (ps, vminmax', inputs2) \<Rightarrow>
      Inr (\<lparr>fig_panels = ps, fig_contour_offset = contour_offset\<rparr>, vminmax', inputs2)))"

text \<open>
  The files \<^verbatim>\<open>plotMaps\<close> opens: the bin table (one row per spaxel, and the header value
  PIXSIZE) and the table of results (one entry per bin in each column). The file system
  is a list of paths with their contents.
\<close>

record table_row =
  row_X :: fl
  row_Y :: fl
  row_FLUX :: fl
  row_BIN_ID :: int

record table_file =
  tf_rows :: "table_row list"
  tf_PIXSIZE :: real

record result_file =
  rf_V :: "fl list"
  rf_SIGMA :: "fl list"
  rf_H3 :: "fl list"
  rf_H4 :: "fl list"

datatype fits_file = TableFile table_file | ResultFile result_file

definition fits_open :: "(string \<times> fits_file) list \<Rightarrow> string \<Rightarrow> error + fits_file" where
  "fits_open files path =
     (case map_of files path of None \<Rightarrow> Inl (FileNotFoundError path) | Some f \<Rightarrow> Inr f)"

text \<open>
  \<^verbatim>\<open>outdir.rstrip('/').split('/')[-1]\<close> and \<^verbatim>\<open>os.path.join\<close> of two components.
\<close>

definition rstrip_slash :: "string \<Rightarrow> string" where
  "rstrip_slash s = rev (dropWhile (\<lambda>c. c = CHR ''/'') (rev s))"

fun last_segment :: "string \<Rightarrow> string \<Rightarrow> string" where
  "last_segment seg [] = seg"
| "last_segment seg (c # cs) = (if c = CHR ''/'' then last_segment [] cs else last_segment (seg @ [c]) cs)"

definition os_path_join :: "string \<Rightarrow> string \<Rightarrow> string" where
  "os_path_join a b =
     (if b \<noteq> [] \<and> hd b = CHR ''/'' then b
      else if a = [] \<or> last a = CHR ''/'' then a @ b
      else a @ ''/'' @ b)"

text \<open>
  \<^verbatim>\<open>result[:,k] = column\<close>: the column must have one entry per row, or a single entry
  that is broadcast; otherwise ValueError.
\<close>

definition set_column :: "nat \<Rightarrow> fl list \<Rightarrow> array2 \<Rightarrow> error + array2" where
  "set_column k col a =
     (if length col = length a then Inr (map (\<lambda>(row, c). row[k := c]) (zip a col))
      else if length col = 1 then Inr (map (\<lambda>row. row[k := col ! 0]) a)
      else Inl ValueError)"

text \<open>
  The names bound at module level in \<^verbatim>\<open>gistPlot_kin.py\<close> (its imports and its three
  functions), each with those of the attribute names H3 and H4 that the object has:
  none has any. The name \<^verbatim>\<open>ppxf\<close> is not among them, and it is no builtin.
\<close>

definition module_globals :: "(string \<times> string list) list" where
  "module_globals =
     [(''fits'', []), (''np'', []), (''os'', []), (''optparse'', []), (''warnings'', []),
      (''Triangulation'', []), (''TriAnalyzer'', []), (''plt'', []), (''AxesGrid'', []),
      (''MultipleLocator'', []), (''FuncFormatter'', []), (''register_sauron_colormap'', []),
      (''TicklabelFormatter'', []), (''setup_plot'', []), (''plotMaps'', []), (''main'', [])]"

text \<open>
  \<^verbatim>\<open>plotMaps\<close> from its first line to the recentring (lines 59 to 97), in a module
  namespace \<open>globals\<close>; \<open>open_results\<close> is the \<^verbatim>\<open>if flag == 'KIN' ... elif flag == 'SFH'\<close> of
  lines 81 to 84, which leaves \<^verbatim>\<open>hdu\<close> unassigned for any other flag. A local name that
  was never assigned raises UnboundLocalError, a global name that is not bound raises
  NameError.
\<close>

definition open_results ::
  "(string \<times> fits_file) list \<Rightarrow> string \<Rightarrow> string \<Rightarrow> string \<Rightarrow> error + fits_file option" where
  "open_results files flag outdir rootname =
     (if flag = ''KIN''
      then (case fits_open files (os_path_join outdir rootname @ ''_kin.fits'') of
              Inl e \<Rightarrow> Inl e | Inr f \<Rightarrow> Inr (Some f))
      else if flag = ''SFH''
      then (case fits_open files (os_path_join outdir rootname @ ''_sfh.fits'') of
              Inl e \<Rightarrow> Inl e | Inr f \<Rightarrow> Inr (Some f))
      else Inr None)"

definition plotMaps_read ::
  "(string \<times> string list) list \<Rightarrow> (string \<times> fits_file) list \<Rightarrow> string \<Rightarrow> string \<Rightarrow> error + kin_data" where
  "plotMaps_read globals files flag outdir =
     (let rootname = last_segment [] (rstrip_slash outdir) in
     (case fits_open files (os_path_join outdir rootname @ ''_table.fits'') of Inl e \<Rightarrow> Inl e | Inr tf \<Rightarrow>
     (case tf of ResultFile r0 \<Rightarrow> Inl AttributeError | TableFile table_hdu \<Rightarrow>
     (let inside = filter (\<lambda>r. 0 \<le> row_BIN_ID r) (tf_rows table_hdu);
          X = map (\<lambda>r. fl_neg (row_X r)) inside;
          Y = map row_Y inside;
          binNum_long = map row_BIN_ID inside;
          ubins = np_unique (map (\<lambda>r. \<bar>row_BIN_ID r\<bar>) (tf_rows table_hdu));
          pixelsize = tf_PIXSIZE table_hdu in
     (case open_results files flag outdir rootname of Inl e \<Rightarrow> Inl e | Inr hdu \<Rightarrow>
     (let result = replicate (length ubins) (replicate 4 (Fin 0)) in
     (case hdu of None \<Rightarrow> Inl (UnboundLocalError ''hdu'') | Some hdu_file \<Rightarrow>
     (case hdu_file of TableFile t0 \<Rightarrow> Inl AttributeError | ResultFile r \<Rightarrow>
     (case set_column 0 (rf_V r) result of Inl e \<Rightarrow> Inl e | Inr result1 \<Rightarrow>
     (case set_column 1 (rf_SIGMA r) result1 of Inl e \<Rightarrow> Inl e | Inr result2 \<Rightarrow>
     (case map_of globals ''ppxf'' of None \<Rightarrow> Inl (NameError ''ppxf'') | Some attrs \<Rightarrow>
     (case (if ''H3'' \<in> set attrs then set_column 2 (rf_H3 r) result2 else Inr result2) of Inl e \<Rightarrow> Inl e | Inr result3 \<Rightarrow>
     (case (if ''H4'' \<in> set attrs then set_column 3 (rf_H4 r) result3 else Inr result3) of Inl e \<Rightarrow> Inl e | Inr result4 \<Rightarrow>
     (case convert_long (replicate 4 NaN) ubins binNum_long result4 of Inl e \<Rightarrow> Inl e | Inr result_long \<Rightarrow>
     (case recentre_result result_long of Inl e \<Rightarrow> Inl e | Inr recentred \<Rightarrow>
      Inr \<lparr>kd_X = X, kd_Y = Y, kd_pixelsize = pixelsize, kd_result = recentred\<rparr>)))))))))))))))"

section \<open>The calibration loops\<close>

text \<open>
  Both renderers call themselves again after the operator's answer. Every such call
  comes after at least one response has been read, which is why the recursion ends:
  a pass never returns more responses than it was given.
\<close>

lemma select_range_inputs:
  "select_range labellist INTERACTIVE SAVE_AFTER_INTERACTIVE vminmax iterate v inputs =
     Inr (r, vminmax', inputs') \<Longrightarrow> length inputs' \<le> length inputs"
  unfolding select_range_def
  by (auto split: if_splits sum.splits list.splits option.splits)

lemma line_contour_offset_inputs:
  "line_contour_offset INTERACTIVE inputs = Inr (c, inputs') \<Longrightarrow> length inputs' \<le> length inputs"
  unfolding line_contour_offset_def
  by (auto split: if_splits list.splits option.splits)

lemma kin_contour_offset_inputs:
  "kin_contour_offset INTERACTIVE contour_offset_saved inputs = Inr (c, inputs') \<Longrightarrow>
   length inputs' \<le> length inputs"
  unfolding kin_contour_offset_def
  by (auto split: if_splits list.splits option.splits)

lemma line_pass_inputs:
  assumes "line_pass g INTERACTIVE SAVE_AFTER_INTERACTIVE line_idx vminmax X Y pixelsize iterate inputs =
     Inr (fig, vminmax', inputs')"
  shows "length inputs' \<le> length inputs"
proof -
  from assms obtain c inputs1 where
    c: "line_contour_offset INTERACTIVE inputs = Inr (c, inputs1)"
    unfolding line_pass_def by (auto split: sum.splits)
  from line_contour_offset_inputs [OF c] have l1: "length inputs1 \<le> length inputs" .
  from assms c have "inputs' = inputs1 \<or>
      (\<exists>v r. select_range [''V'', ''S'', ''F'', ''A''] INTERACTIVE SAVE_AFTER_INTERACTIVE
                vminmax iterate v inputs1 = Inr (r, vminmax', inputs'))"
    unfolding line_pass_def by (auto split: sum.splits if_splits)
  then show ?thesis using l1 select_range_inputs by fastforce
qed

lemma kin_panels_inputs:
  "kin_panels INTERACTIVE SAVE_AFTER_INTERACTIVE result X Y pixelsize its vminmax inputs =
     Inr (ps, vminmax', inputs') \<Longrightarrow> length inputs' \<le> length inputs"
proof (induction its arbitrary: vminmax inputs ps vminmax' inputs')
  case Nil
  then show ?case by simp
next
  case (Cons iterate later)
  from Cons.prems obtain v r vm1 in1 ps1 where
    sel: "select_range [''V'', ''SIGMA'', ''H3'', ''H4''] INTERACTIVE SAVE_AFTER_INTERACTIVE
            vminmax iterate v inputs = Inr (r, vm1, in1)"
    and rest: "kin_panels INTERACTIVE SAVE_AFTER_INTERACTIVE result X Y pixelsize later vm1 in1 =
            Inr (ps1, vminmax', inputs')"
    by (auto split: sum.splits)
  from select_range_inputs [OF sel] Cons.IH [OF rest] show ?case by simp
qed

lemma plotMaps_render_inputs:
  assumes "plotMaps_render d INTERACTIVE vminmax contour_offset_saved SAVE_AFTER_INTERACTIVE inputs =
     Inr (fig, vminmax', inputs')"
  shows "length inputs' \<le> length inputs"
proof -
  from assms obtain c inputs1 ps where
    c: "kin_contour_offset INTERACTIVE contour_offset_saved inputs = Inr (c, inputs1)"
    and p: "kin_panels INTERACTIVE SAVE_AFTER_INTERACTIVE (kd_result d) (kd_X d) (kd_Y d)
              (kd_pixelsize d) [0, 1, 2, 3] vminmax inputs1 = Inr (ps, vminmax', inputs')"
    unfolding plotMaps_render_def by (auto split: sum.splits)
  from kin_contour_offset_inputs [OF c] kin_panels_inputs [OF p] show ?thesis by simp
qed

text \<open>
  \<^verbatim>\<open>plot_line\<close>: one pass, then (lines 187 to 214) in interactive mode the preview and
  the question, and otherwise the saved file. The result is what the operator saw, the
  stored ranges and the responses not yet read.
\<close>

function plot_line ::
  "gandalf_results \<Rightarrow> bool \<Rightarrow> bool \<Rightarrow> nat \<Rightarrow> (fl \<times> fl) list \<Rightarrow> fl \<Rightarrow> fl list \<Rightarrow> fl list \<Rightarrow> real \<Rightarrow> nat \<Rightarrow>
   string list \<Rightarrow> error + (event list \<times> (fl \<times> fl) list \<times> string list)" where
  "plot_line g INTERACTIVE SAVE_AFTER_INTERACTIVE line_idx vminmax contour_offset_saved X Y
     pixelsize iterate inputs =
     (case line_pass g INTERACTIVE SAVE_AFTER_INTERACTIVE line_idx vminmax X Y pixelsize iterate
             inputs of
        Inl e \<Rightarrow> Inl e
      | Inr (None, vminmax', inputs') \<Rightarrow> Inr ([], vminmax', inputs')
      | Inr (Some fig, vminmax', inputs') \<Rightarrow>
          (if INTERACTIVE then
             (case inputs' of
                [] \<Rightarrow> Inl EOFError
              | inp # rest \<Rightarrow>
                  (if is_yes inp then
                     prepend [Shown fig]
                       (plot_line g False True line_idx vminmax' contour_offset_saved X Y
                          pixelsize iterate rest)
                   else if is_no inp then
                     prepend [Shown fig]
                       (plot_line g True False line_idx vminmax' contour_offset_saved X Y
                          pixelsize iterate rest)
                   else
                     prepend [Shown fig, Hint]
                       (plot_line g True False line_idx vminmax' contour_offset_saved X Y
                          pixelsize iterate rest)))
           else Inr ([Saved fig], vminmax', inputs')))"
  by pat_completeness auto
termination
proof (relation "measure (\<lambda>(g, INTERACTIVE, SAVE_AFTER_INTERACTIVE, line_idx, vminmax,
    contour_offset_saved, X, Y, pixelsize, iterate, inputs). length inputs)")
  show "wf (measure (\<lambda>(g, INTERACTIVE, SAVE_AFTER_INTERACTIVE, line_idx, vminmax,
    contour_offset_saved, X, Y, pixelsize, iterate, inputs). length inputs))" by simp
qed (auto dest: line_pass_inputs)

text \<open>
  \<^verbatim>\<open>plotMaps\<close>: the tables are read again in every call (lines 59 to 97), then one pass,
  then (lines 210 to 234) the preview and the question, or the saved file for the flags
  KIN and SFH.
\<close>

function plotMaps ::
  "(string \<times> string list) list \<Rightarrow> (string \<times> fits_file) list \<Rightarrow> string \<Rightarrow> string \<Rightarrow> bool \<Rightarrow>
   (fl \<times> fl) list \<Rightarrow> fl \<Rightarrow> bool \<Rightarrow> string list \<Rightarrow>
   error + (event list \<times> (fl \<times> fl) list \<times> string list)" where
  "plotMaps globals files flag outdir INTERACTIVE vminmax contour_offset_saved
     SAVE_AFTER_INTERACTIVE inputs =
     (case plotMaps_read globals files flag outdir of
        Inl e \<Rightarrow> Inl e
      | Inr d \<Rightarrow>
          (case plotMaps_render d INTERACTIVE vminmax contour_offset_saved SAVE_AFTER_INTERACTIVE
                  inputs of
             Inl e \<Rightarrow> Inl e
           | Inr (fig, vminmax', inputs') \<Rightarrow>
               (if INTERACTIVE then
                  (case inputs' of
                     [] \<Rightarrow> Inl EOFError
                   | inp # rest \<Rightarrow>
                       (if is_yes inp then
                          prepend [Shown fig]
                            (plotMaps globals files flag outdir False vminmax'
                               (fig_contour_offset fig) True rest)
                        else if is_no inp then
                          prepend [Shown fig]
                            (plotMaps globals files flag outdir True vminmax'
                               (fig_contour_offset fig) False rest)
                        else
                          prepend [Shown fig, Hint]
                            (plotMaps globals files flag outdir True vminmax'
                               (fig_contour_offset fig) False rest)))
                else if flag = ''KIN'' \<or> flag = ''SFH'' then Inr ([Saved fig], vminmax', inputs')
                else Inr ([], vminmax', inputs'))))"
  by pat_completeness auto
termination
proof (relation "measure (\<lambda>(globals, files, flag, outdir, INTERACTIVE, vminmax,
    contour_offset_saved, SAVE_AFTER_INTERACTIVE, inputs). length inputs)")
  show "wf (measure (\<lambda>(globals, files, flag, outdir, INTERACTIVE, vminmax,
    contour_offset_saved, SAVE_AFTER_INTERACTIVE, inputs). length inputs))" by simp
qed (auto dest: plotMaps_render_inputs)

section \<open>Auxiliary notions for the proofs\<close>




section \<open>Properties of the conversion to the long version\<close>





lemma distinct_np_unique: "distinct (np_unique xs)"
  unfolding np_unique_def by simp

lemma sorted_np_unique: "sorted (np_unique xs)"
  unfolding np_unique_def by simp

lemma set_np_unique: "set (np_unique xs) = set xs"
  unfolding np_unique_def by simp



section \<open>Properties of the quality filter and of the recentring\<close>













text \<open>
  Claim C2, evaluated on one sample with two emission lines, both significant
  (AoN 5 against the threshold 4), whose flux is the sentinel -1 in the first line and 2
  in the second: the sentinel assignment sets the whole flux row to NaN, the second
  line's 2 included, although that entry is not the sentinel and its AoN passes.
\<close>

theorem quality_filter_sentinel_row:
  "quality_filter 4
     \<lparr>gandalf_Flux = [[Fin (- 1), Fin 2]], gandalf_Ampl = [[Fin 1, Fin 2]],
      gandalf_Vel = [[Fin 1, Fin 2]], gandalf_Sigma = [[Fin 1, Fin 2]],
      gandalf_AoN = [[Fin 5, Fin 5]]\<rparr> =
   Inr \<lparr>gandalf_Flux = [[NaN, NaN]], gandalf_Ampl = [[Fin 1, Fin 2]],
        gandalf_Vel = [[Fin 1, Fin 2]], gandalf_Sigma = [[Fin 1, Fin 2]],
        gandalf_AoN = [[Fin 5, Fin 5]]\<rparr>"
  by code_simp




section \<open>Properties of the rasterizer\<close>


























section \<open>The kinematics renderer never gets to a figure\<close>

lemma ppxf_unbound: "map_of module_globals ''ppxf'' = None"
  by (simp add: module_globals_def)

lemma fits_open_error:
  "fits_open files path = Inl e \<Longrightarrow> e = FileNotFoundError path"
  unfolding fits_open_def by (auto split: option.splits)

lemma open_results_error:
  "open_results files flag outdir rootname = Inl e \<Longrightarrow> \<exists>p. e = FileNotFoundError p"
  unfolding open_results_def by (auto split: if_splits sum.splits dest: fits_open_error)

lemma set_column_error: "set_column k col a = Inl e \<Longrightarrow> e = ValueError"
  unfolding set_column_def by (auto split: if_splits)

lemma set_column_fits:
  "length col = length a \<or> length col = 1 \<Longrightarrow> \<exists>a'. set_column k col a = Inr a' \<and> length a' = length a"
  unfolding set_column_def by auto

lemma plotMaps_read_fails:
  "\<exists>e. plotMaps_read module_globals files flag outdir = Inl e \<and>
        (e = NameError ''ppxf'' \<or> e = UnboundLocalError ''hdu'' \<or> e = ValueError \<or>
         e = AttributeError \<or> (\<exists>p. e = FileNotFoundError p))"
  unfolding plotMaps_read_def Let_def ppxf_unbound
  by (auto split: sum.splits fits_file.splits option.splits
      dest: fits_open_error open_results_error set_column_error)

lemma plotMaps_read_ppxf:
  assumes "fits_open files (os_path_join outdir (last_segment [] (rstrip_slash outdir)) @ ''_table.fits'') =
             Inr (TableFile t)"
    and "open_results files flag outdir (last_segment [] (rstrip_slash outdir)) =
             Inr (Some (ResultFile r))"
    and "length (rf_V r) = length (np_unique (map (\<lambda>r. \<bar>row_BIN_ID r\<bar>) (tf_rows t))) \<or>
         length (rf_V r) = 1"
    and "length (rf_SIGMA r) = length (np_unique (map (\<lambda>r. \<bar>row_BIN_ID r\<bar>) (tf_rows t))) \<or>
         length (rf_SIGMA r) = 1"
  shows "plotMaps_read module_globals files flag outdir = Inl (NameError ''ppxf'')"
proof -
  let ?n = "length (np_unique (map (\<lambda>r. \<bar>row_BIN_ID r\<bar>) (tf_rows t)))"
  let ?res = "replicate ?n (replicate 4 (Fin 0))"
  from assms(3) obtain r1 where r1: "set_column 0 (rf_V r) ?res = Inr r1" and l1: "length r1 = ?n"
    using set_column_fits [of "rf_V r" ?res 0] by auto
  from assms(4) l1 obtain r2 where r2: "set_column 1 (rf_SIGMA r) r1 = Inr r2"
    using set_column_fits [of "rf_SIGMA r" r1 1] by auto
  show ?thesis
    unfolding plotMaps_read_def Let_def assms(1) assms(2) ppxf_unbound
    using r1 r2 by simp
qed

lemma plotMaps_read_hdu:
  assumes "fits_open files (os_path_join outdir (last_segment [] (rstrip_slash outdir)) @ ''_table.fits'') =
             Inr (TableFile t)"
    and "flag \<noteq> ''KIN''" and "flag \<noteq> ''SFH''"
  shows "plotMaps_read module_globals files flag outdir = Inl (UnboundLocalError ''hdu'')"
  unfolding plotMaps_read_def Let_def assms(1)
  using assms(2,3) by (simp add: open_results_def)

text \<open>
  Claim C1, as the code has it. In the module's own namespace every call of
  \<^verbatim>\<open>plotMaps\<close> ends in an error raised while the tables are read, before any figure is
  set up, shown or saved. When the bin table opens, the flag is KIN or SFH, the result
  table opens and its V and SIGMA columns fit the result array, the error is the
  NameError of the unbound name \<^verbatim>\<open>ppxf\<close>. With any other flag the local name \<^verbatim>\<open>hdu\<close> was
  never assigned and its first use, two lines before \<^verbatim>\<open>ppxf\<close>, raises
  UnboundLocalError.
\<close>

theorem plotMaps_never_renders:
  "(\<exists>e. plotMaps module_globals files flag outdir INTERACTIVE vminmax contour_offset_saved
           SAVE_AFTER_INTERACTIVE inputs = Inl e \<and>
        (e = NameError ''ppxf'' \<or> e = UnboundLocalError ''hdu'' \<or> e = ValueError \<or>
         e = AttributeError \<or> (\<exists>p. e = FileNotFoundError p))) \<and>
   (fits_open files (os_path_join outdir (last_segment [] (rstrip_slash outdir)) @ ''_table.fits'') =
      Inr (TableFile t) \<and>
    open_results files flag outdir (last_segment [] (rstrip_slash outdir)) =
      Inr (Some (ResultFile r)) \<and>
    (length (rf_V r) = length (np_unique (map (\<lambda>r. \<bar>row_BIN_ID r\<bar>) (tf_rows t))) \<or>
     length (rf_V r) = 1) \<and>
    (length (rf_SIGMA r) = length (np_unique (map (\<lambda>r. \<bar>row_BIN_ID r\<bar>) (tf_rows t))) \<or>
     length (rf_SIGMA r) = 1) \<longrightarrow>
      plotMaps module_globals files flag outdir INTERACTIVE vminmax contour_offset_saved
        SAVE_AFTER_INTERACTIVE inputs = Inl (NameError ''ppxf'')) \<and>
   (fits_open files (os_path_join outdir (last_segment [] (rstrip_slash outdir)) @ ''_table.fits'') =
      Inr (TableFile t) \<and> flag \<noteq> ''KIN'' \<and> flag \<noteq> ''SFH'' \<longrightarrow>
      plotMaps module_globals files flag outdir INTERACTIVE vminmax contour_offset_saved
        SAVE_AFTER_INTERACTIVE inputs = Inl (UnboundLocalError ''hdu''))"
proof (intro conjI impI)
  from plotMaps_read_fails [of files flag outdir]
  obtain e where e: "plotMaps_read module_globals files flag outdir = Inl e"
    and kind: "e = NameError ''ppxf'' \<or> e = UnboundLocalError ''hdu'' \<or> e = ValueError \<or>
         e = AttributeError \<or> (\<exists>p. e = FileNotFoundError p)"
    by blast
  have "plotMaps module_globals files flag outdir INTERACTIVE vminmax contour_offset_saved
           SAVE_AFTER_INTERACTIVE inputs = Inl e"
    by (subst plotMaps.simps) (simp add: e)
  with kind show "\<exists>e. plotMaps module_globals files flag outdir INTERACTIVE vminmax contour_offset_saved
           SAVE_AFTER_INTERACTIVE inputs = Inl e \<and>
        (e = NameError ''ppxf'' \<or> e = UnboundLocalError ''hdu'' \<or> e = ValueError \<or>
         e = AttributeError \<or> (\<exists>p. e = FileNotFoundError p))"
    by blast
next
  assume a: "fits_open files (os_path_join outdir (last_segment [] (rstrip_slash outdir)) @ ''_table.fits'') =
      Inr (TableFile t) \<and>
    open_results files flag outdir (last_segment [] (rstrip_slash outdir)) =
      Inr (Some (ResultFile r)) \<and>
    (length (rf_V r) = length (np_unique (map (\<lambda>r. \<bar>row_BIN_ID r\<bar>) (tf_rows t))) \<or>
     length (rf_V r) = 1) \<and>
    (length (rf_SIGMA r) = length (np_unique (map (\<lambda>r. \<bar>row_BIN_ID r\<bar>) (tf_rows t))) \<or>
     length (rf_SIGMA r) = 1)"
  then have "plotMaps_read module_globals files flag outdir = Inl (NameError ''ppxf'')"
    by (intro plotMaps_read_ppxf [of files outdir t flag r]) blast+
  then show "plotMaps module_globals files flag outdir INTERACTIVE vminmax contour_offset_saved
        SAVE_AFTER_INTERACTIVE inputs = Inl (NameError ''ppxf'')"
    by (subst plotMaps.simps) simp
next
  assume a: "fits_open files (os_path_join outdir (last_segment [] (rstrip_slash outdir)) @ ''_table.fits'') =
      Inr (TableFile t) \<and> flag \<noteq> ''KIN'' \<and> flag \<noteq> ''SFH''"
  then have "plotMaps_read module_globals files flag outdir = Inl (UnboundLocalError ''hdu'')"
    by (intro plotMaps_read_hdu [of files outdir t flag]) blast+
  then show "plotMaps module_globals files flag outdir INTERACTIVE vminmax contour_offset_saved
        SAVE_AFTER_INTERACTIVE inputs = Inl (UnboundLocalError ''hdu'')"
    by (subst plotMaps.simps) simp
qed

theorem plotMaps_never_renders_witness:
  "fits_open
     [(''out/gal/gal_table.fits'',
       TableFile \<lparr>tf_rows = [\<lparr>row_X = Fin 0, row_Y = Fin 0, row_FLUX = Fin 1, row_BIN_ID = 0\<rparr>],
                  tf_PIXSIZE = 6\<rparr>),
      (''out/gal/gal_kin.fits'',
       ResultFile \<lparr>rf_V = [Fin 3], rf_SIGMA = [Fin 4], rf_H3 = [Fin 0], rf_H4 = [Fin 0]\<rparr>)]
     (os_path_join ''out/gal/'' (last_segment [] (rstrip_slash ''out/gal/'')) @ ''_table.fits'') =
   Inr (TableFile \<lparr>tf_rows = [\<lparr>row_X = Fin 0, row_Y = Fin 0, row_FLUX = Fin 1, row_BIN_ID = 0\<rparr>],
                   tf_PIXSIZE = 6\<rparr>) \<and>
   open_results
     [(''out/gal/gal_table.fits'',
       TableFile \<lparr>tf_rows = [\<lparr>row_X = Fin 0, row_Y = Fin 0, row_FLUX = Fin 1, row_BIN_ID = 0\<rparr>],
                  tf_PIXSIZE = 6\<rparr>),
      (''out/gal/gal_kin.fits'',
       ResultFile \<lparr>rf_V = [Fin 3], rf_SIGMA = [Fin 4], rf_H3 = [Fin 0], rf_H4 = [Fin 0]\<rparr>)]
     ''KIN'' ''out/gal/'' (last_segment [] (rstrip_slash ''out/gal/'')) =
   Inr (Some (ResultFile \<lparr>rf_V = [Fin 3], rf_SIGMA = [Fin 4], rf_H3 = [Fin 0], rf_H4 = [Fin 0]\<rparr>)) \<and>
   plotMaps module_globals
     [(''out/gal/gal_table.fits'',
       TableFile \<lparr>tf_rows = [\<lparr>row_X = Fin 0, row_Y = Fin 0, row_FLUX = Fin 1, row_BIN_ID = 0\<rparr>],
                  tf_PIXSIZE = 6\<rparr>),
      (''out/gal/gal_kin.fits'',
       ResultFile \<lparr>rf_V = [Fin 3], rf_SIGMA = [Fin 4], rf_H3 = [Fin 0], rf_H4 = [Fin 0]\<rparr>)]
     ''KIN'' ''out/gal/'' True [(Fin 0, Fin 0), (Fin 0, Fin 0), (Fin 0, Fin 0), (Fin 0, Fin 0)]
     (Fin 0.2) False [''0.5'', ''1,2'', ''y''] =
   Inl (NameError ''ppxf'') \<and>
   plotMaps module_globals
     [(''out/gal/gal_table.fits'',
       TableFile \<lparr>tf_rows = [\<lparr>row_X = Fin 0, row_Y = Fin 0, row_FLUX = Fin 1, row_BIN_ID = 0\<rparr>],
                  tf_PIXSIZE = 6\<rparr>),
      (''out/gal/gal_kin.fits'',
       ResultFile \<lparr>rf_V = [Fin 3], rf_SIGMA = [Fin 4], rf_H3 = [Fin 0], rf_H4 = [Fin 0]\<rparr>)]
     ''SPAXEL'' ''out/gal/'' False [(Fin 0, Fin 0), (Fin 0, Fin 0), (Fin 0, Fin 0), (Fin 0, Fin 0)]
     (Fin 0.2) False [] =
   Inl (UnboundLocalError ''hdu'')"
proof -
  let ?t = "\<lparr>tf_rows = [\<lparr>row_X = Fin 0, row_Y = Fin 0, row_FLUX = Fin 1, row_BIN_ID = 0\<rparr>],
                  tf_PIXSIZE = 6\<rparr>"
  let ?r = "\<lparr>rf_V = [Fin 3], rf_SIGMA = [Fin 4], rf_H3 = [Fin 0], rf_H4 = [Fin 0]\<rparr>"
  let ?files = "[(''out/gal/gal_table.fits'', TableFile ?t), (''out/gal/gal_kin.fits'', ResultFile ?r)]"
  let ?z = "[(Fin 0, Fin 0), (Fin 0, Fin 0), (Fin 0, Fin 0), (Fin 0, Fin 0)]"
  have a: "fits_open ?files
     (os_path_join ''out/gal/'' (last_segment [] (rstrip_slash ''out/gal/'')) @ ''_table.fits'') =
     Inr (TableFile ?t)"
    by code_simp
  have b: "open_results ?files ''KIN'' ''out/gal/'' (last_segment [] (rstrip_slash ''out/gal/'')) =
     Inr (Some (ResultFile ?r))"
    by code_simp
  have c: "length (rf_V ?r) = length (np_unique (map (\<lambda>r. \<bar>row_BIN_ID r\<bar>) (tf_rows ?t)))"
    by code_simp
  have d: "length (rf_SIGMA ?r) = length (np_unique (map (\<lambda>r. \<bar>row_BIN_ID r\<bar>) (tf_rows ?t)))"
    by code_simp
  have e: "''SPAXEL'' \<noteq> ''KIN'' \<and> ''SPAXEL'' \<noteq> ''SFH''" by simp
  have kin: "plotMaps module_globals ?files ''KIN'' ''out/gal/'' True ?z (Fin 0.2) False
      [''0.5'', ''1,2'', ''y''] = Inl (NameError ''ppxf'')"
    using plotMaps_never_renders [of ?files "''KIN''" "''out/gal/''" True ?z "Fin 0.2" False
        "[''0.5'', ''1,2'', ''y'']" ?t ?r] a b c d
    by blast
  have other: "plotMaps module_globals ?files ''SPAXEL'' ''out/gal/'' False ?z (Fin 0.2) False [] =
      Inl (UnboundLocalError ''hdu'')"
    using plotMaps_never_renders [of ?files "''SPAXEL''" "''out/gal/''" False ?z "Fin 0.2" False
        "[]" ?t ?r] a e
    by blast
  from a b kin other show ?thesis by blast
qed

theorem plotMaps_other_flag_counterexample:
  "plotMaps module_globals
     [(''out/gal/gal_table.fits'',
       TableFile \<lparr>tf_rows = [\<lparr>row_X = Fin 0, row_Y = Fin 0, row_FLUX = Fin 1, row_BIN_ID = 0\<rparr>],
                  tf_PIXSIZE = 6\<rparr>),
      (''out/gal/gal_kin.fits'',
       ResultFile \<lparr>rf_V = [Fin 3], rf_SIGMA = [Fin 4], rf_H3 = [Fin 0], rf_H4 = [Fin 0]\<rparr>)]
     ''FOO'' ''out/gal/'' False [(Fin 0, Fin 0), (Fin 0, Fin 0), (Fin 0, Fin 0), (Fin 0, Fin 0)]
     (Fin 0.2) False [] =
   Inl (UnboundLocalError ''hdu'')"
  by code_simp

section \<open>Properties of the calibration loops\<close>





lemma plot_line_eof:
  "line_pass g True SAVE_AFTER_INTERACTIVE line_idx vminmax X Y pixelsize iterate inputs =
     Inr (Some fig, vminmax', []) \<Longrightarrow>
   plot_line g True SAVE_AFTER_INTERACTIVE line_idx vminmax contour_offset_saved X Y pixelsize
     iterate inputs = Inl EOFError"
  by (subst plot_line.simps) simp












section \<open>A quantity that is missing everywhere\<close>






section \<open>The three ways of choosing a range\<close>















section \<open>The operator's decision\<close>














end
